theory Spec2Isabelle
  imports Complex_Main
begin

section \<open>Python values and exceptions\<close>

text \<open>
  The arguments of \<^verbatim>\<open>send\<close> are dynamically typed and the validators inspect
  their types (\<^verbatim>\<open>isinstance\<close>) and their truth value, so they are modelled as
  Python values. \<^verbatim>\<open>bool\<close> is a subclass of \<^verbatim>\<open>int\<close>: \<^verbatim>\<open>True\<close> and
  \<^verbatim>\<open>False\<close> are \<open>PyInt 1\<close> and \<open>PyInt 0\<close>. A set is the list of its distinct
  elements in one iteration order.
\<close>

datatype pyval =
    PyNone
  | PyInt int
  | PyStr string
  | PyList "pyval list"
  | PySet "pyval list"

text \<open>
  \<open>SMSModuleException\<close> is the only exception class the module raises itself. It
  carries its message and its \<^verbatim>\<open>__context__\<close>: the exception that was being
  handled when it was raised, \<open>None\<close> when it was raised outside a handler. Both
  \<^verbatim>\<open>except\<close> clauses raise with a plain \<^verbatim>\<open>raise\<close>, without \<^verbatim>\<open>from None\<close>, so
  what they raise keeps the caught fault as its context.
  \<open>XmlrpcError\<close> stands for \<^verbatim>\<open>xmlrpc_lib.Error\<close> and its subclasses
  (\<^verbatim>\<open>Fault\<close>, \<^verbatim>\<open>ProtocolError\<close>, \<^verbatim>\<open>ResponseError\<close>), the class the two
  \<^verbatim>\<open>except\<close> clauses catch; \<open>OtherException\<close> is an exception of any other
  class, named by its class, such as the \<^verbatim>\<open>OSError\<close> of a refused connection or
  the \<^verbatim>\<open>ExpatError\<close> of a response that is no XML.
\<close>

datatype exc =
    SMSModuleException string "exc option"
  | XmlrpcError string
  | OtherException string

fun truthy :: "pyval \<Rightarrow> bool" where
  "truthy PyNone = False"
| "truthy (PyInt i) = (i \<noteq> 0)"
| "truthy (PyStr s) = (s \<noteq> [])"
| "truthy (PyList xs) = (xs \<noteq> [])"
| "truthy (PySet xs) = (xs \<noteq> [])"

fun isinstance_str :: "pyval \<Rightarrow> bool" where
  "isinstance_str (PyStr s) = True"
| "isinstance_str v = False"

fun isinstance_list :: "pyval \<Rightarrow> bool" where
  "isinstance_list (PyList xs) = True"
| "isinstance_list v = False"

fun isinstance_set :: "pyval \<Rightarrow> bool" where
  "isinstance_set (PySet xs) = True"
| "isinstance_set v = False"

fun hashable :: "pyval \<Rightarrow> bool" where
  "hashable (PyList xs) = False"
| "hashable (PySet xs) = False"
| "hashable v = True"

text \<open>\<^verbatim>\<open>set(v)\<close>: the distinct items of an iterable; \<^verbatim>\<open>TypeError\<close> on a value
  that is not iterable or on an unhashable item.\<close>

fun py_set :: "pyval \<Rightarrow> exc + pyval" where
  "py_set (PyStr s) = Inr (PySet (remdups (map (\<lambda>c. PyStr [c]) s)))"
| "py_set (PyList xs) =
     (if list_all hashable xs then Inr (PySet (remdups xs))
      else Inl (OtherException ''TypeError''))"
| "py_set (PySet xs) = Inr (PySet xs)"
| "py_set v = Inl (OtherException ''TypeError'')"

text \<open>The items a \<^verbatim>\<open>for\<close> loop visits.\<close>

fun py_iter :: "pyval \<Rightarrow> exc + pyval list" where
  "py_iter (PyStr s) = Inr (map (\<lambda>c. PyStr [c]) s)"
| "py_iter (PyList xs) = Inr xs"
| "py_iter (PySet xs) = Inr xs"
| "py_iter v = Inl (OtherException ''TypeError'')"

text \<open>\<^verbatim>\<open>','.join(items)\<close>: every item must be a string.\<close>

fun join_comma :: "pyval list \<Rightarrow> exc + string" where
  "join_comma [] = Inr []"
| "join_comma [PyStr s] = Inr s"
| "join_comma (PyStr s # rest) =
     (case join_comma rest of Inl e \<Rightarrow> Inl e | Inr t \<Rightarrow> Inr (s @ '','' @ t))"
| "join_comma (v # rest) = Inl (OtherException ''TypeError'')"

text \<open>\<^verbatim>\<open>int(x)\<close> on a float truncates towards zero; the clock reading is a
  rational number of seconds.\<close>

definition py_int :: "rat \<Rightarrow> int" where
  "py_int x = (if 0 \<le> x then \<lfloor>x\<rfloor> else \<lceil>x\<rceil>)"

section \<open>The phone number pattern\<close>

text \<open>
  The fragment of regular expressions that \<^verbatim>\<open>PHONE_NUMBER_REGEX\<close> uses: a literal
  character, and a character class repeated between \<open>lo\<close> and \<open>hi\<close> times.
  \<open>re_search\<close> is \<^verbatim>\<open>re.compile(r).search(s)\<close> read as a truth value: the pattern
  matches at some position of the string.
\<close>

datatype regex_item = Lit char | Rep "char list" nat nat

fun consume :: "char list \<Rightarrow> nat \<Rightarrow> string \<Rightarrow> string option" where
  "consume cs 0 s = Some s"
| "consume cs (Suc n) [] = None"
| "consume cs (Suc n) (c # s) = (if c \<in> set cs then consume cs n s else None)"

fun match_here :: "regex_item list \<Rightarrow> string \<Rightarrow> bool" where
  "match_here [] s = True"
| "match_here (Lit c # r) s = (case s of [] \<Rightarrow> False | d # t \<Rightarrow> d = c \<and> match_here r t)"
| "match_here (Rep cs lo hi # r) s =
     list_ex (\<lambda>n. case consume cs n s of None \<Rightarrow> False | Some t \<Rightarrow> match_here r t)
       [lo..<Suc hi]"

definition re_search :: "regex_item list \<Rightarrow> string \<Rightarrow> bool" where
  "re_search r s = list_ex (\<lambda>i. match_here r (drop i s)) [0..<Suc (length s)]"

text \<open>\<^verbatim>\<open>PHONE_NUMBER_REGEX = '01[0|1|6|7|8|9]{1}[0-9]{7,8}'\<close>; the first class is
  written with the characters the source has between its brackets.\<close>

definition PHONE_NUMBER_REGEX :: "regex_item list" where
  "PHONE_NUMBER_REGEX =
     [Lit CHR ''0'', Lit CHR ''1'', Rep ''0|1|6|7|8|9'' 1 1, Rep ''0123456789'' 7 8]"

section \<open>Constants\<close>

definition MISSING_SETTING :: "string \<Rightarrow> string" where
  "MISSING_SETTING setting = ''GABIA_SMS_SETTINGS '' @ setting @ '' is required''"

definition REQUIRED_SETTINGS :: "string list" where
  "REQUIRED_SETTINGS = [''API_ID'', ''API_KEY'', ''SENDER'']"

definition KNOWN_SMS_TYPES :: "string list" where
  "KNOWN_SMS_TYPES = [''sms'', ''lms'', ''multi_sms'', ''multi_lms'']"

definition SINGLE_SMS_TYPES :: "string list" where
  "SINGLE_SMS_TYPES = [''sms'', ''lms'']"

definition MULTI_SMS_TYPES :: "string list" where
  "MULTI_SMS_TYPES = [''multi_sms'', ''multi_lms'']"

definition SUCCESS_CODE :: string where
  "SUCCESS_CODE = ''0000''"

section \<open>Settings\<close>

text \<open>
  \<^verbatim>\<open>GABIA_SMS_SETTINGS\<close> is a dictionary from setting names to strings;
  \<open>None\<close> is Python's \<^verbatim>\<open>None\<close>, the default that \<^verbatim>\<open>setdefault\<close> enters. The
  dictionary is an association list in insertion order, the order in which
  \<^verbatim>\<open>items()\<close> visits it.
\<close>

type_synonym settings_dict = "(string \<times> string option) list"

definition setdefault :: "settings_dict \<Rightarrow> string \<Rightarrow> string option \<Rightarrow> settings_dict" where
  "setdefault d k v = (if k \<in> fst ` set d then d else d @ [(k, v)])"

text \<open>\<^verbatim>\<open>getattr(settings, 'GABIA_SMS_SETTINGS', {})\<close>: the argument is \<open>None\<close> when
  the Django settings have no such attribute.\<close>

definition get_module_settings :: "settings_dict option \<Rightarrow> settings_dict" where
  "get_module_settings django_settings =
     foldl (\<lambda>module_settings setting_key. setdefault module_settings setting_key None)
       (case django_settings of None \<Rightarrow> [] | Some d \<Rightarrow> d) REQUIRED_SETTINGS"

fun setting_truthy :: "string option \<Rightarrow> bool" where
  "setting_truthy None = False"
| "setting_truthy (Some s) = (s \<noteq> [])"

fun validate_settings :: "settings_dict \<Rightarrow> exc + unit" where
  "validate_settings [] = Inr ()"
| "validate_settings ((key, val) # rest) =
     (if \<not> setting_truthy val then Inl (SMSModuleException (MISSING_SETTING key) None)
      else validate_settings rest)"

text \<open>\<^verbatim>\<open>d[k]\<close>, with its \<^verbatim>\<open>KeyError\<close>.\<close>

definition getitem :: "settings_dict \<Rightarrow> string \<Rightarrow> exc + string option" where
  "getitem d k = (case map_of d k of None \<Rightarrow> Inl (OtherException ''KeyError'') | Some v \<Rightarrow> Inr v)"

fun py_of_setting :: "string option \<Rightarrow> pyval" where
  "py_of_setting None = PyNone"
| "py_of_setting (Some s) = PyStr s"

section \<open>The request, the client and its collaborators\<close>

text \<open>The dictionary that \<^verbatim>\<open>__get_sms_param\<close> returns, one field for each key.\<close>

record sms_param =
  param_sender :: "string option"
  param_sms_type :: pyval
  param_message :: string
  param_receiver :: pyval
  param_title :: string
  param_scheduled_time :: string
  param_key :: int

text \<open>
  What an operation does besides returning: reading the clock, drawing a nonce,
  calling a hook, calling the gateway, logging. An operation takes the events so
  far and returns them extended, in the order in which they happened.
\<close>

datatype event =
    ClockRead
  | BeforeSendSms sms_param
  | NonceDrawn
  | ProxyCall string
  | LogDebug string
  | LogError exc
  | PostSentSms sms_param

text \<open>
  A client object: the validated settings and the two methods a subclass may
  override. A hook is modelled by its outcome on the request, \<open>None\<close> when it
  returns and \<open>Some e\<close> when it raises \<open>e\<close>; the hooks of \<^verbatim>\<open>GabiaSMS\<close> itself
  are \<^verbatim>\<open>pass\<close>.
\<close>

record client =
  settings :: settings_dict
  before_send_sms :: "sms_param \<Rightarrow> exc option"
  post_sent_sms :: "sms_param \<Rightarrow> exc option"

text \<open>
  The modules \<^verbatim>\<open>utils\<close>, \<^verbatim>\<open>parser\<close> and \<^verbatim>\<open>formats\<close>, the clock, the digest
  and the remote endpoint are taken as parameters: \<open>timestamp\<close> is
  \<^verbatim>\<open>timezone.now().timestamp()\<close>, \<open>get_nonce\<close> the string that
  \<^verbatim>\<open>utils.get_nonce()\<close> returns in this call, \<open>md5_hexdigest s\<close> is
  \<^verbatim>\<open>hashlib.md5(s.encode()).hexdigest()\<close>, \<open>gabiasms\<close> is the remote procedure
  (a response, or the exception the call raises), and a template takes the keyword
  arguments of \<^verbatim>\<open>format\<close>.
\<close>

record env =
  timestamp :: rat
  get_nonce :: string
  md5_hexdigest :: "string \<Rightarrow> string"
  escape_xml_string :: "string \<Rightarrow> string"
  get_result_code :: "string \<Rightarrow> string"
  gabiasms :: "string \<Rightarrow> exc + string"
  REQUEST_SMS_XML_FORMAT :: "(string \<times> pyval) list \<Rightarrow> string"
  REQUEST_MULTI_SMS_XML_FORMAT :: "(string \<times> pyval) list \<Rightarrow> string"
  REQUEST_SMS_RESULT_FORMAT :: "(string \<times> pyval) list \<Rightarrow> string"

definition BAD_REQUEST :: string where
  "BAD_REQUEST = ''Bad request. Please check api docs''"

definition no_hook :: "sms_param \<Rightarrow> exc option" where
  "no_hook param = None"

definition GabiaSMS_init :: "settings_dict option \<Rightarrow> exc + client" where
  "GabiaSMS_init django_settings =
     (let module_settings = get_module_settings django_settings
      in case validate_settings module_settings of
           Inl e \<Rightarrow> Inl e
         | Inr u \<Rightarrow> Inr \<lparr>settings = module_settings,
                          before_send_sms = no_hook, post_sent_sms = no_hook\<rparr>)"

section \<open>Validation\<close>

definition validate_required_params :: "pyval \<Rightarrow> pyval \<Rightarrow> exc + unit" where
  "validate_required_params message receiver =
     (if \<not> (truthy message \<and> truthy receiver)
        then Inl (SMSModuleException ''Please check required parameters!'' None)
      else if \<not> isinstance_str message \<or> \<not> isinstance_str receiver
        then Inl (SMSModuleException ''Please check parameters type!'' None)
      else (case receiver of
              PyStr r \<Rightarrow>
                if \<not> re_search PHONE_NUMBER_REGEX r
                  then Inl (SMSModuleException ''Please check phone number!'' None)
                else Inr ()
            | _ \<Rightarrow> Inl (OtherException ''TypeError'')))"

text \<open>The loop over the receivers; \<^verbatim>\<open>search\<close> raises \<^verbatim>\<open>TypeError\<close> on an item
  that is not a string.\<close>

fun check_phone_numbers :: "pyval list \<Rightarrow> exc + unit" where
  "check_phone_numbers [] = Inr ()"
| "check_phone_numbers (PyStr phone_number # rest) =
     (if \<not> re_search PHONE_NUMBER_REGEX phone_number
        then Inl (SMSModuleException ''Please check phone number!'' None)
      else check_phone_numbers rest)"
| "check_phone_numbers (v # rest) = Inl (OtherException ''TypeError'')"

definition validate_required_multi_params :: "pyval \<Rightarrow> pyval \<Rightarrow> exc + unit" where
  "validate_required_multi_params message receivers =
     (if \<not> (truthy message \<and> truthy receivers)
        then Inl (SMSModuleException ''Please check required parameters!'' None)
      else if \<not> isinstance_list receivers \<or> \<not> isinstance_set receivers
        then Inl (SMSModuleException ''Please check parameters type!'' None)
      else (case py_iter receivers of
              Inl e \<Rightarrow> Inl e
            | Inr items \<Rightarrow> check_phone_numbers items))"

section \<open>Building the request\<close>

text \<open>\<^verbatim>\<open>v in names\<close> for a tuple of strings: only a string equals a string.\<close>

fun py_in :: "pyval \<Rightarrow> string list \<Rightarrow> bool" where
  "py_in (PyStr s) names = (s \<in> set names)"
| "py_in v names = False"

text \<open>\<^verbatim>\<open>v[-3:]\<close>: the last three items, or all of them when there are fewer.\<close>

fun last_three :: "pyval \<Rightarrow> exc + pyval" where
  "last_three (PyStr s) = Inr (PyStr (drop (length s - 3) s))"
| "last_three (PyList xs) = Inr (PyList (drop (length xs - 3) xs))"
| "last_three v = Inl (OtherException ''TypeError'')"

text \<open>\<^verbatim>\<open>escape_xml_string\<close> is a function on strings; on a message that is not a
  string (which only the multi path could hand it) it is taken to raise
  \<^verbatim>\<open>TypeError\<close>.\<close>

fun escape_value :: "env \<Rightarrow> pyval \<Rightarrow> exc + string" where
  "escape_value e (PyStr s) = Inr (escape_xml_string e s)"
| "escape_value e v = Inl (OtherException ''TypeError'')"

text \<open>The first half of \<^verbatim>\<open>__get_sms_param\<close>: validation, and for the multi
  types the new values of \<^verbatim>\<open>receiver\<close> and \<^verbatim>\<open>sms_type\<close>.\<close>

definition checked_receiver :: "pyval \<Rightarrow> pyval \<Rightarrow> pyval \<Rightarrow> exc + pyval \<times> pyval" where
  "checked_receiver message receiver sms_type =
     (if py_in sms_type SINGLE_SMS_TYPES then
        (case validate_required_params message receiver of
           Inl e \<Rightarrow> Inl e
         | Inr u \<Rightarrow> Inr (receiver, sms_type))
      else
        (case py_set receiver of
           Inl e \<Rightarrow> Inl e
         | Inr receivers \<Rightarrow>
             (case validate_required_multi_params message receivers of
                Inl e \<Rightarrow> Inl e
              | Inr u \<Rightarrow>
                  (case py_iter receivers of
                     Inl e \<Rightarrow> Inl e
                   | Inr items \<Rightarrow>
                       (case join_comma items of
                          Inl e \<Rightarrow> Inl e
                        | Inr joined \<Rightarrow>
                            (case last_three sms_type of
                               Inl e \<Rightarrow> Inl e
                             | Inr narrowed \<Rightarrow> Inr (PyStr joined, narrowed)))))))"

text \<open>\<^verbatim>\<open>__get_sms_param\<close>. The entries of the returned dictionary are evaluated
  in the order written, the clock last.\<close>

definition get_sms_param ::
  "client \<Rightarrow> env \<Rightarrow> pyval \<Rightarrow> pyval \<Rightarrow> string \<Rightarrow> string \<Rightarrow> pyval \<Rightarrow> event list
     \<Rightarrow> (exc + sms_param) \<times> event list" where
  "get_sms_param self e message receiver title scheduled_time sms_type tr =
     (case checked_receiver message receiver sms_type of
        Inl x \<Rightarrow> (Inl x, tr)
      | Inr (receiver', sms_type') \<Rightarrow>
          (case getitem (settings self) ''SENDER'' of
             Inl x \<Rightarrow> (Inl x, tr)
           | Inr sender \<Rightarrow>
               (case escape_value e message of
                  Inl x \<Rightarrow> (Inl x, tr)
                | Inr escaped \<Rightarrow>
                    (Inr \<lparr>param_sender = sender,
                          param_sms_type = sms_type',
                          param_message = escaped,
                          param_receiver = receiver',
                          param_title = escape_xml_string e title,
                          param_scheduled_time = scheduled_time,
                          param_key = py_int (timestamp e)\<rparr>,
                     tr @ [ClockRead]))))"

section \<open>The access token\<close>

text \<open>\<^verbatim>\<open>__get_md5_access_token\<close>: \<^verbatim>\<open>nonce + settings['API_KEY']\<close> raises
  \<^verbatim>\<open>TypeError\<close> when the key is \<^verbatim>\<open>None\<close>.\<close>

definition get_md5_access_token ::
  "client \<Rightarrow> env \<Rightarrow> event list \<Rightarrow> (exc + string) \<times> event list" where
  "get_md5_access_token self e tr =
     (let nonce = get_nonce e; tr' = tr @ [NonceDrawn]
      in case getitem (settings self) ''API_KEY'' of
           Inl x \<Rightarrow> (Inl x, tr')
         | Inr None \<Rightarrow> (Inl (OtherException ''TypeError''), tr')
         | Inr (Some api_key) \<Rightarrow> (Inr (nonce @ md5_hexdigest e (nonce @ api_key)), tr'))"

section \<open>The gateway client\<close>

text \<open>The \<^verbatim>\<open>except xmlrpc_lib.Error\<close> clause of both operations: the fault is
  logged and replaced; any other exception passes.\<close>

fun except_xmlrpc_error :: "(exc + 'a) \<times> event list \<Rightarrow> (exc + 'a) \<times> event list" where
  "except_xmlrpc_error (Inl (XmlrpcError f), tr) =
     (Inl (SMSModuleException BAD_REQUEST (Some (XmlrpcError f))),
      tr @ [LogError (XmlrpcError f)])"
| "except_xmlrpc_error (r, tr) = (r, tr)"

text \<open>The argument of the remote call in \<^verbatim>\<open>__send_sms\<close>.\<close>

definition sms_request :: "env \<Rightarrow> string option \<Rightarrow> string \<Rightarrow> sms_param \<Rightarrow> string" where
  "sms_request e api_id access_token param =
     (let sms_type = param_sms_type param;
          request_format =
            (if py_in sms_type SINGLE_SMS_TYPES then REQUEST_SMS_XML_FORMAT e
             else REQUEST_MULTI_SMS_XML_FORMAT e)
      in request_format
           [(''api_id'', py_of_setting api_id),
            (''access_token'', PyStr access_token),
            (''sms_type'', sms_type),
            (''key'', PyInt (param_key param)),
            (''title'', PyStr (param_title param)),
            (''message'', PyStr (param_message param)),
            (''sender'', py_of_setting (param_sender param)),
            (''receiver'', param_receiver param),
            (''scheduled_time'', PyStr (param_scheduled_time param))])"

text \<open>The body of the \<^verbatim>\<open>try\<close> block of \<^verbatim>\<open>__send_sms\<close>.\<close>

definition send_sms_body ::
  "client \<Rightarrow> env \<Rightarrow> sms_param \<Rightarrow> event list \<Rightarrow> (exc + pyval) \<times> event list" where
  "send_sms_body self e param tr =
     (let tr1 = tr @ [BeforeSendSms param]
      in case before_send_sms self param of
           Some x \<Rightarrow> (Inl x, tr1)
         | None \<Rightarrow>
             (case getitem (settings self) ''API_ID'' of
                Inl x \<Rightarrow> (Inl x, tr1)
              | Inr api_id \<Rightarrow>
                  (case get_md5_access_token self e tr1 of
                     (Inl x, tr2) \<Rightarrow> (Inl x, tr2)
                   | (Inr access_token, tr2) \<Rightarrow>
                       (let request = sms_request e api_id access_token param;
                            tr3 = tr2 @ [ProxyCall request]
                        in case gabiasms e request of
                             Inl x \<Rightarrow> (Inl x, tr3)
                           | Inr response \<Rightarrow>
                               (let result_code = get_result_code e response;
                                    tr4 = (if result_code \<noteq> SUCCESS_CODE
                                           then tr3 @ [LogDebug result_code] else tr3);
                                    tr5 = tr4 @ [PostSentSms param]
                                in case post_sent_sms self param of
                                     Some x \<Rightarrow> (Inl x, tr5)
                                   | None \<Rightarrow> (Inr (PyInt (param_key param)), tr5))))))"

definition send_sms ::
  "client \<Rightarrow> env \<Rightarrow> sms_param \<Rightarrow> event list \<Rightarrow> (exc + pyval) \<times> event list" where
  "send_sms self e param tr = except_xmlrpc_error (send_sms_body self e param tr)"

definition send ::
  "client \<Rightarrow> env \<Rightarrow> pyval \<Rightarrow> pyval \<Rightarrow> string \<Rightarrow> pyval \<Rightarrow> string \<Rightarrow> event list
     \<Rightarrow> (exc + pyval) \<times> event list" where
  "send self e message receiver title sms_type scheduled_time tr =
     (if \<not> py_in sms_type KNOWN_SMS_TYPES
        then (Inl (SMSModuleException ''Please check sms type!'' None), tr)
      else (case get_sms_param self e message receiver title scheduled_time sms_type tr of
              (Inl x, tr') \<Rightarrow> (Inl x, tr')
            | (Inr param, tr') \<Rightarrow> send_sms self e param tr'))"

text \<open>The argument of the remote call in \<^verbatim>\<open>get_send_result\<close>.\<close>

definition result_request :: "env \<Rightarrow> string option \<Rightarrow> string \<Rightarrow> pyval \<Rightarrow> string" where
  "result_request e api_id access_token key =
     REQUEST_SMS_RESULT_FORMAT e
       [(''api_id'', py_of_setting api_id),
        (''access_token'', PyStr access_token),
        (''key'', key)]"

definition get_send_result_body ::
  "client \<Rightarrow> env \<Rightarrow> pyval \<Rightarrow> event list \<Rightarrow> (exc + string) \<times> event list" where
  "get_send_result_body self e key tr =
     (case getitem (settings self) ''API_ID'' of
        Inl x \<Rightarrow> (Inl x, tr)
      | Inr api_id \<Rightarrow>
          (case get_md5_access_token self e tr of
             (Inl x, tr1) \<Rightarrow> (Inl x, tr1)
           | (Inr access_token, tr1) \<Rightarrow>
               (let request = result_request e api_id access_token key;
                    tr2 = tr1 @ [ProxyCall request]
                in case gabiasms e request of
                     Inl x \<Rightarrow> (Inl x, tr2)
                   | Inr response \<Rightarrow> (Inr (get_result_code e response), tr2))))"

definition get_send_result ::
  "client \<Rightarrow> env \<Rightarrow> pyval \<Rightarrow> event list \<Rightarrow> (exc + string) \<times> event list" where
  "get_send_result self e key tr = except_xmlrpc_error (get_send_result_body self e key tr)"

section \<open>Fixtures\<close>

text \<open>
  The settings of the end-to-end scenarios, the client built from them, and a fake
  collaborator set around a given gateway: the clock stands at 1700000000.5
  seconds, the nonce is \<open>n0\<close>, the digest and the templates are recognisable
  stand-ins, and the result parser hands the response back.
\<close>

definition fake_settings :: settings_dict where
  "fake_settings =
     [(''API_ID'', Some ''id1''), (''API_KEY'', Some ''key1''), (''SENDER'', Some ''0100000000'')]"

definition fake_client :: client where
  "fake_client = \<lparr>settings = fake_settings, before_send_sms = no_hook, post_sent_sms = no_hook\<rparr>"

definition fake_env :: "(string \<Rightarrow> exc + string) \<Rightarrow> env" where
  "fake_env gateway =
     \<lparr>timestamp = 3400000001 / 2,
      get_nonce = ''n0'',
      md5_hexdigest = (\<lambda>s. ''md5('' @ s @ '')''),
      escape_xml_string = (\<lambda>s. s),
      get_result_code = (\<lambda>response. response),
      gabiasms = gateway,
      REQUEST_SMS_XML_FORMAT = (\<lambda>args. ''single''),
      REQUEST_MULTI_SMS_XML_FORMAT = (\<lambda>args. ''multi''),
      REQUEST_SMS_RESULT_FORMAT = (\<lambda>args. ''result'')\<rparr>"

text \<open>The fixtures with a result template that shows the arguments it is given,
  each as \<open>name=value;\<close>.\<close>

fun show_value :: "pyval \<Rightarrow> string" where
  "show_value (PyStr s) = s"
| "show_value v = ''<value>''"

definition show_args :: "(string \<times> pyval) list \<Rightarrow> string" where
  "show_args args = concat (map (\<lambda>(name, v). name @ ''='' @ show_value v @ '';'') args)"

definition show_env :: "(string \<Rightarrow> exc + string) \<Rightarrow> env" where
  "show_env gateway = (fake_env gateway)\<lparr>REQUEST_SMS_RESULT_FORMAT := show_args\<rparr>"

text \<open>The request that \<^verbatim>\<open>send(message, receiver)\<close> builds on the fixtures.\<close>

definition fake_param :: "string \<Rightarrow> string \<Rightarrow> sms_param" where
  "fake_param message receiver =
     \<lparr>param_sender = Some ''0100000000'',
      param_sms_type = PyStr ''sms'',
      param_message = message,
      param_receiver = PyStr receiver,
      param_title = ''SEND'',
      param_scheduled_time = ''0'',
      param_key = 1700000000\<rparr>"

section \<open>The specification's words\<close>

text \<open>
  The phone-number shape as the specification words it: \<open>01\<close>, one of
  \<open>0, 1, 6, 7, 8, 9\<close>, then 7 to 8 digits. A string is taken to have the shape
  when the shape occurs in it, the weakest reading of "matches".
\<close>

definition spec_phone_shape :: "regex_item list" where
  "spec_phone_shape =
     [Lit CHR ''0'', Lit CHR ''1'', Rep ''016789'' 1 1, Rep ''0123456789'' 7 8]"

text \<open>The three error kinds of the specification, and the kind a caller can read
  off an exception of the module: its message is all that tells the kinds apart.\<close>

datatype error_kind = ConfigurationError | ValidationError | GatewayError

definition error_kind :: "exc \<Rightarrow> error_kind option" where
  "error_kind x =
     (case x of
        SMSModuleException m context \<Rightarrow>
          if m = BAD_REQUEST then Some GatewayError
          else if m \<in> set [''Please check required parameters!'',
                            ''Please check parameters type!'',
                            ''Please check phone number!'',
                            ''Please check sms type!'']
            then Some ValidationError
          else if take 19 m = ''GABIA_SMS_SETTINGS '' then Some ConfigurationError
          else None
      | _ \<Rightarrow> None)"

text \<open>The class of an exception, what an \<^verbatim>\<open>except\<close> clause branches on.\<close>

fun exc_class :: "exc \<Rightarrow> string" where
  "exc_class (SMSModuleException m context) = ''SMSModuleException''"
| "exc_class (XmlrpcError f) = ''xmlrpc.client.Error''"
| "exc_class (OtherException name) = name"

section \<open>Settings: the loops as list functions\<close>

lemma validate_settings_find:
  "validate_settings d =
     (case find (\<lambda>(k, v). \<not> setting_truthy v) d of
        None \<Rightarrow> Inr ()
      | Some (k, v) \<Rightarrow> Inl (SMSModuleException (MISSING_SETTING k) None))"
  by (induction d) auto

lemma setdefault_map_of:
  "map_of (setdefault d k v) k' = (if k' = k \<and> map_of d k = None then Some v else map_of d k')"
  by (auto simp: setdefault_def dom_map_of_conv_image_fst[symmetric] domIff map_add_def
      split: option.splits)

lemma setdefault_mono: "set d \<subseteq> set (setdefault d k v)"
  by (auto simp: setdefault_def)

lemma get_module_settings_map_of:
  "map_of (get_module_settings cfg) k =
     (case map_of (case cfg of None \<Rightarrow> [] | Some d \<Rightarrow> d) k of
        Some v \<Rightarrow> Some v
      | None \<Rightarrow> if k \<in> set REQUIRED_SETTINGS then Some None else None)"
  by (auto simp: get_module_settings_def REQUIRED_SETTINGS_def setdefault_map_of
      split: option.splits)

lemma get_module_settings_mono:
  "set (case cfg of None \<Rightarrow> [] | Some d \<Rightarrow> d) \<subseteq> set (get_module_settings cfg)"
  by (auto simp: get_module_settings_def REQUIRED_SETTINGS_def setdefault_def)

text \<open>A constructed client holds a non-empty string under each required key.\<close>

lemma init_getitem:
  assumes "GabiaSMS_init cfg = Inr self" and "k \<in> set REQUIRED_SETTINGS"
  shows "\<exists>s. getitem (settings self) k = Inr (Some s) \<and> s \<noteq> []"
proof -
  let ?d = "get_module_settings cfg"
  from assms(1) have ok: "validate_settings ?d = Inr ()" and s: "settings self = ?d"
    by (auto simp: GabiaSMS_init_def Let_def split: sum.splits)
  from ok have none: "find (\<lambda>(k, v). \<not> setting_truthy v) ?d = None"
    by (simp add: validate_settings_find split: option.splits prod.splits)
  from assms(2) have "map_of ?d k \<noteq> None"
    by (simp add: get_module_settings_map_of split: option.splits)
  then obtain v where v: "map_of ?d k = Some v" by blast
  then have "(k, v) \<in> set ?d" by (rule map_of_SomeD)
  with none have "setting_truthy v" by (auto simp: find_None_iff)
  then obtain s where "v = Some s" "s \<noteq> []" by (cases v) auto
  with v s show ?thesis by (simp add: getitem_def)
qed

lemma fake_client_constructed: "GabiaSMS_init (Some fake_settings) = Inr fake_client"
  by (simp add: GabiaSMS_init_def get_module_settings_def fake_settings_def fake_client_def
      REQUIRED_SETTINGS_def setdefault_def)

lemma fake_getitem:
  "getitem (settings fake_client) ''API_ID'' = Inr (Some ''id1'')"
  "getitem (settings fake_client) ''API_KEY'' = Inr (Some ''key1'')"
  "getitem (settings fake_client) ''SENDER'' = Inr (Some ''0100000000'')"
  by (simp_all add: getitem_def fake_client_def fake_settings_def)

lemma fake_hooks:
  "before_send_sms fake_client param = None" "post_sent_sms fake_client param = None"
  by (simp_all add: fake_client_def no_hook_def)

lemma fake_clock: "py_int (timestamp (fake_env gateway)) = 1700000000"
  by (simp add: fake_env_def py_int_def floor_eq_iff)

section \<open>The exception handler and the token\<close>

lemma except_xmlrpc_error_Inr:
  "except_xmlrpc_error (r, tr) = (Inr v, tr') \<longleftrightarrow> r = Inr v \<and> tr' = tr"
proof (cases r)
  case (Inl x)
  then show ?thesis by (cases x) auto
next
  case (Inr y)
  then show ?thesis by auto
qed

lemma token_value:
  assumes "getitem (settings self) ''API_KEY'' = Inr (Some api_key)"
  shows "get_md5_access_token self e tr =
           (Inr (get_nonce e @ md5_hexdigest e (get_nonce e @ api_key)), tr @ [NonceDrawn])"
  using assms by (simp add: get_md5_access_token_def Let_def)

section \<open>The fixtures, evaluated\<close>

lemma phone_ok: "re_search PHONE_NUMBER_REGEX ''01012345678''"
  by code_simp

lemma phone_pipe: "re_search PHONE_NUMBER_REGEX ''01|1234567''"
  by code_simp

lemma phone_short: "\<not> re_search PHONE_NUMBER_REGEX ''123''"
  by code_simp

lemma spec_pipe: "\<not> re_search spec_phone_shape ''01|1234567''"
  by code_simp

lemma fake_get_sms_param:
  assumes "re_search PHONE_NUMBER_REGEX receiver" and "message \<noteq> []"
  shows "get_sms_param fake_client (fake_env gateway) (PyStr message) (PyStr receiver)
           ''SEND'' ''0'' (PyStr ''sms'') tr
         = (Inr (fake_param message receiver), tr @ [ClockRead])"
proof -
  from assms(1) have "receiver \<noteq> []"
    by (auto simp: re_search_def PHONE_NUMBER_REGEX_def)
  with assms have "checked_receiver (PyStr message) (PyStr receiver) (PyStr ''sms'')
      = Inr (PyStr receiver, PyStr ''sms'')"
    by (simp add: checked_receiver_def SINGLE_SMS_TYPES_def validate_required_params_def)
  then show ?thesis
    by (simp add: get_sms_param_def fake_getitem fake_clock fake_param_def)
       (simp add: fake_env_def)
qed

section \<open>Unknown message types\<close>

text \<open>
  C10. Whatever the other arguments are, \<^verbatim>\<open>send\<close> with an \<^verbatim>\<open>sms_type\<close> that
  is none of \<open>sms\<close>, \<open>lms\<close>, \<open>multi_sms\<close>, \<open>multi_lms\<close> (a string outside the
  four, or a value that is no string) raises \<open>Please check sms type!\<close> and leaves
  the events as they were: no clock reading, no hook, no nonce, no remote call.
  The message and the receiver are arbitrary, so the error precedes their
  validation.
\<close>

theorem send_rejects_unknown_sms_type:
  assumes "sms_type \<notin> {PyStr ''sms'', PyStr ''lms'', PyStr ''multi_sms'', PyStr ''multi_lms''}"
  shows "send self e message receiver title sms_type scheduled_time tr =
           (Inl (SMSModuleException ''Please check sms type!'' None), tr)"
proof -
  from assms have "\<not> py_in sms_type KNOWN_SMS_TYPES"
    by (cases sms_type) (auto simp: KNOWN_SMS_TYPES_def)
  then show ?thesis by (simp add: send_def)
qed

text \<open>At \<open>mms\<close>, with a message and a receiver that no validator would accept.\<close>

theorem send_rejects_unknown_sms_type_witness:
  "PyStr ''mms'' \<notin> {PyStr ''sms'', PyStr ''lms'', PyStr ''multi_sms'', PyStr ''multi_lms''}
   \<and> send fake_client (fake_env (\<lambda>request. Inr ''0000'')) PyNone (PyInt 5) ''SEND''
         (PyStr ''mms'') ''0'' []
       = (Inl (SMSModuleException ''Please check sms type!'' None), [])"
proof -
  have h: "PyStr ''mms'' \<notin> {PyStr ''sms'', PyStr ''lms'', PyStr ''multi_sms'', PyStr ''multi_lms''}"
    by simp
  from send_rejects_unknown_sms_type [OF h] h show ?thesis by simp
qed

section \<open>The access token\<close>

text \<open>
  C9. The token is the nonce followed by the digest of nonce and secret key, where
  the digest is \<^verbatim>\<open>hashlib.md5(...).hexdigest()\<close>, and generating it draws one
  nonce. The part after the nonce is a function of nonce and key alone: two
  clients holding the same key, with the same nonce and digest function, get the
  same token whatever else differs.
\<close>

theorem access_token_is_nonce_then_digest:
  assumes "getitem (settings self) ''API_KEY'' = Inr (Some api_key)"
    and "getitem (settings self') ''API_KEY'' = Inr (Some api_key)"
    and "get_nonce e' = get_nonce e"
    and "md5_hexdigest e' = md5_hexdigest e"
  shows "get_md5_access_token self e tr =
           (Inr (get_nonce e @ md5_hexdigest e (get_nonce e @ api_key)), tr @ [NonceDrawn])
         \<and> fst (get_md5_access_token self' e' tr') = fst (get_md5_access_token self e tr)"
  using assms by (simp add: token_value)

text \<open>On the fixtures, against two different gateways and event histories.\<close>

theorem access_token_is_nonce_then_digest_witness:
  "get_md5_access_token fake_client (fake_env (\<lambda>request. Inr ''0000'')) []
     = (Inr ''n0md5(n0key1)'', [NonceDrawn])
   \<and> fst (get_md5_access_token fake_client (fake_env (\<lambda>request. Inl (XmlrpcError ''fault'')))
            [ClockRead])
     = Inr ''n0md5(n0key1)''"
  using access_token_is_nonce_then_digest
    [of fake_client "''key1''" fake_client "fake_env (\<lambda>request. Inl (XmlrpcError ''fault''))"
       "fake_env (\<lambda>request. Inr ''0000'')" "[]" "[ClockRead]"]
  by (simp add: fake_getitem) (simp add: fake_env_def)

section \<open>Looking a result up\<close>

lemma get_send_result_body_value:
  assumes "getitem (settings self) ''API_ID'' = Inr api_id"
    and "getitem (settings self) ''API_KEY'' = Inr (Some api_key)"
    and "request = REQUEST_SMS_RESULT_FORMAT e
           [(''api_id'', py_of_setting api_id),
            (''access_token'', PyStr (get_nonce e @ md5_hexdigest e (get_nonce e @ api_key))),
            (''key'', key)]"
  shows "get_send_result_body self e key tr =
           (case gabiasms e request of
              Inl x \<Rightarrow> (Inl x, tr @ [NonceDrawn, ProxyCall request])
            | Inr response \<Rightarrow>
                (Inr (get_result_code e response), tr @ [NonceDrawn, ProxyCall request]))"
  using assms
  by (simp add: get_send_result_body_def result_request_def token_value Let_def
      split: sum.splits)

text \<open>
  C8. For every key, \<^verbatim>\<open>get_send_result\<close> draws one nonce and calls the gateway
  once, and the argument of the call is the result template filled with
  \<^verbatim>\<open>api_id\<close> from the settings, with the token made of that nonce and the secret
  key, and with the key as it was given. When the gateway answers, the parsed code
  is returned as it is, whatever it is, and nothing is logged. \<open>Bad request. Please
  check api docs\<close> is raised only when the call raised \<^verbatim>\<open>xmlrpc_lib.Error\<close>: the
  fault is then logged and stays the context of what is raised. An exception of
  any other class leaves the operation as the call raised it, unlogged.
\<close>

theorem get_send_result_returns_code_verbatim:
  assumes "getitem (settings self) ''API_ID'' = Inr api_id"
    and "getitem (settings self) ''API_KEY'' = Inr (Some api_key)"
    and "request = REQUEST_SMS_RESULT_FORMAT e
           [(''api_id'', py_of_setting api_id),
            (''access_token'', PyStr (get_nonce e @ md5_hexdigest e (get_nonce e @ api_key))),
            (''key'', key)]"
  shows "get_send_result self e key tr =
           (case gabiasms e request of
              Inr response \<Rightarrow>
                (Inr (get_result_code e response), tr @ [NonceDrawn, ProxyCall request])
            | Inl (XmlrpcError f) \<Rightarrow>
                (Inl (SMSModuleException BAD_REQUEST (Some (XmlrpcError f))),
                 tr @ [NonceDrawn, ProxyCall request, LogError (XmlrpcError f)])
            | Inl x \<Rightarrow> (Inl x, tr @ [NonceDrawn, ProxyCall request]))"
proof (cases "gabiasms e request")
  case (Inr response)
  then show ?thesis
    by (simp add: get_send_result_def get_send_result_body_value [OF assms])
next
  case (Inl x)
  then show ?thesis
    by (cases x) (simp_all add: get_send_result_def get_send_result_body_value [OF assms])
qed

text \<open>
  On the fixtures, with a template that shows its arguments: a failure code, the
  success code, a fault of the protocol and a refused connection.
\<close>

theorem get_send_result_returns_code_verbatim_witness:
  "get_send_result fake_client (show_env (\<lambda>request. Inr ''0001'')) (PyStr ''123'') []
     = (Inr ''0001'',
        [NonceDrawn, ProxyCall ''api_id=id1;access_token=n0md5(n0key1);key=123;''])
   \<and> get_send_result fake_client (show_env (\<lambda>request. Inr ''0000'')) (PyStr ''123'') []
     = (Inr ''0000'',
        [NonceDrawn, ProxyCall ''api_id=id1;access_token=n0md5(n0key1);key=123;''])
   \<and> get_send_result fake_client (show_env (\<lambda>request. Inl (XmlrpcError ''fault'')))
        (PyStr ''123'') []
     = (Inl (SMSModuleException ''Bad request. Please check api docs''
               (Some (XmlrpcError ''fault''))),
        [NonceDrawn, ProxyCall ''api_id=id1;access_token=n0md5(n0key1);key=123;'',
         LogError (XmlrpcError ''fault'')])
   \<and> get_send_result fake_client
        (show_env (\<lambda>request. Inl (OtherException ''ConnectionRefusedError''))) (PyStr ''123'') []
     = (Inl (OtherException ''ConnectionRefusedError''),
        [NonceDrawn, ProxyCall ''api_id=id1;access_token=n0md5(n0key1);key=123;''])"
proof -
  note run = get_send_result_returns_code_verbatim
    [OF fake_getitem(1) fake_getitem(2) refl, of _ "PyStr ''123''" "[]"]
  from run [of "show_env (\<lambda>request. Inr ''0001'')"]
    run [of "show_env (\<lambda>request. Inr ''0000'')"]
    run [of "show_env (\<lambda>request. Inl (XmlrpcError ''fault''))"]
    run [of "show_env (\<lambda>request. Inl (OtherException ''ConnectionRefusedError''))"]
  show ?thesis
    by (simp add: show_env_def fake_env_def show_args_def BAD_REQUEST_def)
qed

section \<open>Sending\<close>

lemma send_known:
  assumes "py_in sms_type KNOWN_SMS_TYPES"
    and "get_sms_param self e message receiver title scheduled_time sms_type tr = (Inr param, tr1)"
  shows "send self e message receiver title sms_type scheduled_time tr = send_sms self e param tr1"
  using assms by (simp add: send_def)

lemma fake_send_known:
  assumes "re_search PHONE_NUMBER_REGEX receiver" and "message \<noteq> []"
  shows "send fake_client (fake_env gateway) (PyStr message) (PyStr receiver) ''SEND''
           (PyStr ''sms'') ''0'' tr
         = send_sms fake_client (fake_env gateway) (fake_param message receiver) (tr @ [ClockRead])"
  by (rule send_known) (simp_all add: KNOWN_SMS_TYPES_def fake_get_sms_param assms)

lemma send_sms_answered:
  assumes "before_send_sms self param = None"
    and "post_sent_sms self param = None"
    and "getitem (settings self) ''API_ID'' = Inr api_id"
    and "getitem (settings self) ''API_KEY'' = Inr (Some api_key)"
    and "gabiasms e (sms_request e api_id
           (get_nonce e @ md5_hexdigest e (get_nonce e @ api_key)) param) = Inr response"
  shows "send_sms self e param tr =
           (Inr (PyInt (param_key param)),
            tr @ [BeforeSendSms param, NonceDrawn,
                  ProxyCall (sms_request e api_id
                    (get_nonce e @ md5_hexdigest e (get_nonce e @ api_key)) param)]
               @ (if get_result_code e response \<noteq> SUCCESS_CODE
                  then [LogDebug (get_result_code e response)] else [])
               @ [PostSentSms param])"
  using assms by (simp add: send_sms_def send_sms_body_def token_value Let_def)

lemma send_sms_faulted:
  assumes "before_send_sms self param = None"
    and "getitem (settings self) ''API_ID'' = Inr api_id"
    and "getitem (settings self) ''API_KEY'' = Inr (Some api_key)"
    and "gabiasms e (sms_request e api_id
           (get_nonce e @ md5_hexdigest e (get_nonce e @ api_key)) param) = Inl (XmlrpcError f)"
  shows "send_sms self e param tr =
           (Inl (SMSModuleException BAD_REQUEST (Some (XmlrpcError f))),
            tr @ [BeforeSendSms param, NonceDrawn,
                  ProxyCall (sms_request e api_id
                    (get_nonce e @ md5_hexdigest e (get_nonce e @ api_key)) param),
                  LogError (XmlrpcError f)])"
  using assms by (simp add: send_sms_def send_sms_body_def token_value Let_def)

text \<open>An exception of the remote call that is no \<^verbatim>\<open>xmlrpc_lib.Error\<close> is not
  caught: it leaves \<^verbatim>\<open>__send_sms\<close> as it is, unlogged.\<close>

lemma send_sms_other_exception_propagates:
  assumes "before_send_sms self param = None"
    and "getitem (settings self) ''API_ID'' = Inr api_id"
    and "getitem (settings self) ''API_KEY'' = Inr (Some api_key)"
    and "gabiasms e (sms_request e api_id
           (get_nonce e @ md5_hexdigest e (get_nonce e @ api_key)) param)
         = Inl (OtherException name)"
  shows "send_sms self e param tr =
           (Inl (OtherException name),
            tr @ [BeforeSendSms param, NonceDrawn,
                  ProxyCall (sms_request e api_id
                    (get_nonce e @ md5_hexdigest e (get_nonce e @ api_key)) param)])"
  using assms by (simp add: send_sms_def send_sms_body_def token_value Let_def)

text \<open>What \<^verbatim>\<open>__send_sms\<close> does with an exception of the remote call: an
  \<^verbatim>\<open>xmlrpc_lib.Error\<close> is logged and replaced, an exception of any other class
  is not caught.\<close>

lemma send_sms_remote_call_raised:
  assumes "before_send_sms self param = None"
    and "getitem (settings self) ''API_ID'' = Inr api_id"
    and "getitem (settings self) ''API_KEY'' = Inr (Some api_key)"
    and "gabiasms e (sms_request e api_id
           (get_nonce e @ md5_hexdigest e (get_nonce e @ api_key)) param) = Inl x"
  shows "send_sms self e param tr =
           (case x of
              XmlrpcError f \<Rightarrow>
                (Inl (SMSModuleException BAD_REQUEST (Some (XmlrpcError f))),
                 tr @ [BeforeSendSms param, NonceDrawn,
                       ProxyCall (sms_request e api_id
                         (get_nonce e @ md5_hexdigest e (get_nonce e @ api_key)) param),
                       LogError (XmlrpcError f)])
            | _ \<Rightarrow>
                (Inl x,
                 tr @ [BeforeSendSms param, NonceDrawn,
                       ProxyCall (sms_request e api_id
                         (get_nonce e @ md5_hexdigest e (get_nonce e @ api_key)) param)]))"
  using assms
  by (cases x) (simp_all add: send_sms_def send_sms_body_def token_value Let_def)

lemma fake_request:
  "sms_request (fake_env gateway) api_id access_token (fake_param message receiver) = ''single''"
  by (simp add: sms_request_def fake_param_def SINGLE_SMS_TYPES_def fake_env_def)

lemma fake_send_answered:
  assumes "re_search PHONE_NUMBER_REGEX receiver" and "message \<noteq> []"
  shows "send fake_client (fake_env (\<lambda>request. Inr code)) (PyStr message) (PyStr receiver)
           ''SEND'' (PyStr ''sms'') ''0'' tr
         = (Inr (PyInt 1700000000),
            tr @ [ClockRead, BeforeSendSms (fake_param message receiver), NonceDrawn,
                  ProxyCall ''single'']
               @ (if code \<noteq> ''0000'' then [LogDebug code] else [])
               @ [PostSentSms (fake_param message receiver)])"
proof -
  let ?e = "fake_env (\<lambda>request. Inr code)"
  have answer: "gabiasms ?e (sms_request ?e (Some ''id1'')
      (get_nonce ?e @ md5_hexdigest ?e (get_nonce ?e @ ''key1''))
      (fake_param message receiver)) = Inr code"
    by (simp add: fake_env_def)
  have code: "get_result_code ?e code = code"
    by (simp add: fake_env_def)
  have key: "param_key (fake_param message receiver) = 1700000000"
    by (simp add: fake_param_def)
  show ?thesis
    unfolding fake_send_known [OF assms]
      send_sms_answered [OF fake_hooks(1) fake_hooks(2) fake_getitem(1) fake_getitem(2) answer]
    by (simp add: fake_request code key SUCCESS_CODE_def)
qed

lemma send_sms_result:
  assumes "send_sms self e param tr = (Inr v, tr')"
  shows "v = PyInt (param_key param) \<and> (\<exists>rest. tr' = tr @ BeforeSendSms param # rest)"
  using assms
  by (auto simp: send_sms_def send_sms_body_def Let_def except_xmlrpc_error_Inr
      get_md5_access_token_def
      split: sum.splits prod.splits option.splits if_splits)

lemma get_sms_param_key:
  assumes "get_sms_param self e message receiver title scheduled_time sms_type tr = (Inr param, tr1)"
  shows "param_key param = py_int (timestamp e) \<and> tr1 = tr @ [ClockRead]"
  using assms by (auto simp: get_sms_param_def split: sum.splits prod.splits)

text \<open>
  C4. Take a send that reaches the remote call (a known type, a request that
  validation let through, a \<^verbatim>\<open>before_send_sms\<close> that returns) and whose remote
  call is answered. Whatever code the answer parses to, the send returns the key
  of the request, provided \<^verbatim>\<open>post_sent_sms\<close> returns, as the hook of
  \<^verbatim>\<open>GabiaSMS\<close> does. A code other than \<open>0000\<close> leaves one debug record between
  the call and the hook; nothing is logged as an error and nothing is raised.
\<close>

theorem send_returns_key_for_any_result_code:
  assumes "py_in sms_type KNOWN_SMS_TYPES"
    and "get_sms_param self e message receiver title scheduled_time sms_type tr = (Inr param, tr1)"
    and "before_send_sms self param = None"
    and "post_sent_sms self param = None"
    and "getitem (settings self) ''API_ID'' = Inr api_id"
    and "getitem (settings self) ''API_KEY'' = Inr (Some api_key)"
    and "gabiasms e (sms_request e api_id
           (get_nonce e @ md5_hexdigest e (get_nonce e @ api_key)) param) = Inr response"
  shows "send self e message receiver title sms_type scheduled_time tr =
           (Inr (PyInt (param_key param)),
            tr1 @ [BeforeSendSms param, NonceDrawn,
                   ProxyCall (sms_request e api_id
                     (get_nonce e @ md5_hexdigest e (get_nonce e @ api_key)) param)]
                @ (if get_result_code e response \<noteq> SUCCESS_CODE
                   then [LogDebug (get_result_code e response)] else [])
                @ [PostSentSms param])"
  unfolding send_known [OF assms(1,2)] by (rule send_sms_answered [OF assms(3-7)])

text \<open>The gateway answers \<open>0001\<close>: the key comes back, the code is in the debug log.\<close>

theorem send_returns_key_for_any_result_code_witness:
  "send fake_client (fake_env (\<lambda>request. Inr ''0001'')) (PyStr ''hello'') (PyStr ''01012345678'')
     ''SEND'' (PyStr ''sms'') ''0'' []
   = (Inr (PyInt 1700000000),
      [ClockRead, BeforeSendSms (fake_param ''hello'' ''01012345678''), NonceDrawn,
       ProxyCall ''single'', LogDebug ''0001'',
       PostSentSms (fake_param ''hello'' ''01012345678'')])"
proof -
  let ?e = "fake_env (\<lambda>request. Inr ''0001'')"
  have known: "py_in (PyStr ''sms'') KNOWN_SMS_TYPES"
    by (simp add: KNOWN_SMS_TYPES_def)
  have param: "get_sms_param fake_client ?e (PyStr ''hello'') (PyStr ''01012345678'')
      ''SEND'' ''0'' (PyStr ''sms'') [] = (Inr (fake_param ''hello'' ''01012345678''), [] @ [ClockRead])"
    by (rule fake_get_sms_param [OF phone_ok]) simp
  have answer: "gabiasms ?e (sms_request ?e (Some ''id1'')
      (get_nonce ?e @ md5_hexdigest ?e (get_nonce ?e @ ''key1''))
      (fake_param ''hello'' ''01012345678'')) = Inr ''0001''"
    by (simp add: fake_env_def)
  from send_returns_key_for_any_result_code
    [OF known param fake_hooks(1) fake_hooks(2) fake_getitem(1) fake_getitem(2) answer]
  show ?thesis
    by (simp add: fake_env_def sms_request_def fake_param_def SINGLE_SMS_TYPES_def
        SUCCESS_CODE_def)
qed

text \<open>
  C5, as the code has it. Take a send that reaches the remote call, and let the
  call raise. If what it raises is an \<^verbatim>\<open>xmlrpc_lib.Error\<close>, the send raises
  \<open>Bad request. Please check api docs\<close>; the message carries nothing of the
  fault, which goes to the error log and stays the context of the raised
  exception. If it is of any other class, the \<^verbatim>\<open>except\<close> clause does not
  apply: the send raises that very exception and logs nothing. Either way the
  events are, in this order, \<^verbatim>\<open>before_send_sms\<close>, the nonce, the call, and the
  log record if any: the first hook ran before the call and \<^verbatim>\<open>post_sent_sms\<close>
  did not run at all.
\<close>

theorem send_fault_of_remote_call:
  assumes "py_in sms_type KNOWN_SMS_TYPES"
    and "get_sms_param self e message receiver title scheduled_time sms_type tr = (Inr param, tr1)"
    and "before_send_sms self param = None"
    and "getitem (settings self) ''API_ID'' = Inr api_id"
    and "getitem (settings self) ''API_KEY'' = Inr (Some api_key)"
    and "request = sms_request e api_id
           (get_nonce e @ md5_hexdigest e (get_nonce e @ api_key)) param"
    and "gabiasms e request = Inl x"
  shows "send self e message receiver title sms_type scheduled_time tr =
           (case x of
              XmlrpcError f \<Rightarrow>
                (Inl (SMSModuleException BAD_REQUEST (Some (XmlrpcError f))),
                 tr1 @ [BeforeSendSms param, NonceDrawn, ProxyCall request,
                        LogError (XmlrpcError f)])
            | _ \<Rightarrow> (Inl x, tr1 @ [BeforeSendSms param, NonceDrawn, ProxyCall request]))"
  unfolding send_known [OF assms(1,2)] assms(6)
  by (rule send_sms_remote_call_raised [OF assms(3-5) assms(7) [unfolded assms(6)]])

text \<open>A fault of the protocol and a refused connection, on the fixtures.\<close>

theorem send_fault_of_remote_call_witness:
  "send fake_client (fake_env (\<lambda>request. Inl (XmlrpcError ''fault''))) (PyStr ''hello'')
     (PyStr ''01012345678'') ''SEND'' (PyStr ''sms'') ''0'' []
   = (Inl (SMSModuleException ''Bad request. Please check api docs''
             (Some (XmlrpcError ''fault''))),
      [ClockRead, BeforeSendSms (fake_param ''hello'' ''01012345678''), NonceDrawn,
       ProxyCall ''single'', LogError (XmlrpcError ''fault'')])
   \<and> send fake_client (fake_env (\<lambda>request. Inl (OtherException ''ExpatError'')))
       (PyStr ''hello'') (PyStr ''01012345678'') ''SEND'' (PyStr ''sms'') ''0'' []
   = (Inl (OtherException ''ExpatError''),
      [ClockRead, BeforeSendSms (fake_param ''hello'' ''01012345678''), NonceDrawn,
       ProxyCall ''single''])"
proof -
  have known: "py_in (PyStr ''sms'') KNOWN_SMS_TYPES"
    by (simp add: KNOWN_SMS_TYPES_def)
  have param: "get_sms_param fake_client (fake_env gateway) (PyStr ''hello'')
      (PyStr ''01012345678'') ''SEND'' ''0'' (PyStr ''sms'') []
      = (Inr (fake_param ''hello'' ''01012345678''), [] @ [ClockRead])" for gateway
    by (rule fake_get_sms_param [OF phone_ok]) simp
  have raised: "gabiasms (fake_env (\<lambda>request. Inl x)) request = Inl x" for x request
    by (simp add: fake_env_def)
  note run = send_fault_of_remote_call
    [OF known param fake_hooks(1) fake_getitem(1) fake_getitem(2) refl raised]
  from run [of "XmlrpcError ''fault''"] run [of "OtherException ''ExpatError''"]
  show ?thesis
    by (simp add: fake_request BAD_REQUEST_def)
qed

text \<open>
  C5 as stated fails twice. A refused connection is a fault of the transport and
  no \<^verbatim>\<open>xmlrpc_lib.Error\<close>: the send raises it as it is, not as the module's
  exception, and logs nothing. And where the module's exception is raised, the
  fault it replaces is not hidden from the caller: it is the context of what is
  raised.
\<close>

theorem send_connection_failure_propagates:
  "send fake_client (fake_env (\<lambda>request. Inl (OtherException ''ConnectionRefusedError'')))
       (PyStr ''hello'') (PyStr ''01012345678'') ''SEND'' (PyStr ''sms'') ''0'' []
   = (Inl (OtherException ''ConnectionRefusedError''),
      [ClockRead, BeforeSendSms (fake_param ''hello'' ''01012345678''), NonceDrawn,
       ProxyCall ''single''])
   \<and> exc_class (OtherException ''ConnectionRefusedError'') \<noteq> ''SMSModuleException''
   \<and> fst (send fake_client (fake_env (\<lambda>request. Inl (XmlrpcError ''fault''))) (PyStr ''hello'')
       (PyStr ''01012345678'') ''SEND'' (PyStr ''sms'') ''0'' [])
   = Inl (SMSModuleException ''Bad request. Please check api docs''
            (Some (XmlrpcError ''fault'')))"
proof -
  have raised: "gabiasms (fake_env (\<lambda>request. Inl x)) request = Inl x" for x request
    by (simp add: fake_env_def)
  note run = send_sms_remote_call_raised
    [where param = "fake_param ''hello'' ''01012345678''" and tr = "[ClockRead]",
     OF fake_hooks(1) fake_getitem(1) fake_getitem(2) raised]
  from run [where x = "OtherException ''ConnectionRefusedError''"]
    run [where x = "XmlrpcError ''fault''"]
  show ?thesis
    by (simp add: fake_send_known phone_ok fake_request BAD_REQUEST_def)
qed

text \<open>
  C7, as the code has it. A send that returns, returns a Python \<^verbatim>\<open>int\<close>: the
  clock reading truncated to whole seconds, the \<^verbatim>\<open>key\<close> entry of the request.
  The clock is read while the request is built, before \<^verbatim>\<open>before_send_sms\<close> and
  everything after it. For a clock at or after the epoch the truncation is the
  floor.
\<close>

theorem send_returns_clock_seconds_as_int:
  assumes "send self e message receiver title sms_type scheduled_time tr = (Inr v, tr')"
  shows "v = PyInt (py_int (timestamp e))
       \<and> (\<exists>param rest.
             get_sms_param self e message receiver title scheduled_time sms_type tr
               = (Inr param, tr @ [ClockRead])
           \<and> param_key param = py_int (timestamp e)
           \<and> tr' = tr @ ClockRead # BeforeSendSms param # rest)
       \<and> (0 \<le> timestamp e \<longrightarrow> py_int (timestamp e) = \<lfloor>timestamp e\<rfloor>)"
proof -
  from assms have known: "py_in sms_type KNOWN_SMS_TYPES"
    by (auto simp: send_def split: if_splits)
  from assms known obtain param tr1 where
    p: "get_sms_param self e message receiver title scheduled_time sms_type tr = (Inr param, tr1)"
    and s: "send_sms self e param tr1 = (Inr v, tr')"
    by (auto simp: send_def split: prod.splits sum.splits)
  from get_sms_param_key [OF p] send_sms_result [OF s] p show ?thesis
    by (auto simp: py_int_def)
qed

text \<open>The clock stands at 1700000000.5; the key is 1700000000.\<close>

theorem send_returns_clock_seconds_as_int_witness:
  "send fake_client (fake_env (\<lambda>request. Inr ''0000'')) (PyStr ''hello'') (PyStr ''01012345678'')
     ''SEND'' (PyStr ''sms'') ''0'' []
   = (Inr (PyInt 1700000000),
      [ClockRead, BeforeSendSms (fake_param ''hello'' ''01012345678''), NonceDrawn,
       ProxyCall ''single'', PostSentSms (fake_param ''hello'' ''01012345678'')])
   \<and> PyInt 1700000000 = PyInt (py_int (timestamp (fake_env (\<lambda>request. Inr ''0000''))))
   \<and> timestamp (fake_env (\<lambda>request. Inr ''0000'')) = 3400000001 / 2"
proof -
  let ?e = "fake_env (\<lambda>request. Inr ''0000'')"
  have run: "send fake_client ?e (PyStr ''hello'') (PyStr ''01012345678'')
     ''SEND'' (PyStr ''sms'') ''0'' []
   = (Inr (PyInt 1700000000),
      [ClockRead, BeforeSendSms (fake_param ''hello'' ''01012345678''), NonceDrawn,
       ProxyCall ''single'', PostSentSms (fake_param ''hello'' ''01012345678'')])"
    by (simp add: fake_send_answered phone_ok)
  from send_returns_clock_seconds_as_int [OF run] run show ?thesis
    by (simp add: fake_env_def)
qed

text \<open>C7 as stated promises a string; the value returned is no \<^verbatim>\<open>str\<close>.\<close>

theorem send_returns_int_not_string:
  "fst (send fake_client (fake_env (\<lambda>request. Inr ''0000'')) (PyStr ''hello'')
          (PyStr ''01012345678'') ''SEND'' (PyStr ''sms'') ''0'' [])
     = Inr (PyInt 1700000000)
   \<and> \<not> isinstance_str (PyInt 1700000000)"
  by (simp add: fake_send_answered phone_ok)

section \<open>Constructing a client\<close>

lemma init_find:
  "GabiaSMS_init cfg =
     (case find (\<lambda>(k, v). \<not> setting_truthy v) (get_module_settings cfg) of
        None \<Rightarrow> Inr \<lparr>settings = get_module_settings cfg,
                       before_send_sms = no_hook, post_sent_sms = no_hook\<rparr>
      | Some (k, v) \<Rightarrow> Inl (SMSModuleException (MISSING_SETTING k) None))"
  by (simp add: GabiaSMS_init_def validate_settings_find Let_def split: option.splits)

lemma get_module_settings_complete:
  assumes "set REQUIRED_SETTINGS \<subseteq> fst ` set d"
  shows "get_module_settings (Some d) = d"
  using assms by (simp add: get_module_settings_def REQUIRED_SETTINGS_def setdefault_def)

lemma required_falsy_entry:
  assumes "k \<in> set REQUIRED_SETTINGS"
    and "case map_of (case cfg of None \<Rightarrow> [] | Some d \<Rightarrow> d) k of
           None \<Rightarrow> True | Some v \<Rightarrow> \<not> setting_truthy v"
  shows "\<exists>v. (k, v) \<in> set (get_module_settings cfg) \<and> \<not> setting_truthy v"
proof (cases "map_of (case cfg of None \<Rightarrow> [] | Some d \<Rightarrow> d) k")
  case None
  with assms(1) have "map_of (get_module_settings cfg) k = Some None"
    by (simp add: get_module_settings_map_of)
  then have "(k, None) \<in> set (get_module_settings cfg)" by (rule map_of_SomeD)
  then show ?thesis by force
next
  case (Some v)
  then have "(k, v) \<in> set (case cfg of None \<Rightarrow> [] | Some d \<Rightarrow> d)" by (rule map_of_SomeD)
  with get_module_settings_mono have "(k, v) \<in> set (get_module_settings cfg)" by blast
  moreover from Some assms(2) have "\<not> setting_truthy v" by simp
  ultimately show ?thesis by blast
qed

text \<open>
  C6, as the code has it. The constructor walks over every entry of the settings
  dictionary, not over the three required keys only. So: when a required key is
  missing or has a falsy value, construction fails, and the error names the first
  entry in the dictionary's order whose value is falsy, the required keys that were
  missing standing last with the value \<^verbatim>\<open>None\<close>; every failure of the constructor
  is of this form and returns no client; and construction succeeds, with the
  settings as given, when the three keys are present and every entry of the
  dictionary has a non-empty value.
\<close>

theorem init_fails_on_first_falsy_setting:
  "(k \<in> set REQUIRED_SETTINGS
      \<and> (case map_of (case cfg of None \<Rightarrow> [] | Some d \<Rightarrow> d) k of
            None \<Rightarrow> True | Some v \<Rightarrow> \<not> setting_truthy v)
    \<longrightarrow> (\<exists>k' v'. find (\<lambda>(k, v). \<not> setting_truthy v) (get_module_settings cfg) = Some (k', v')
                \<and> GabiaSMS_init cfg = Inl (SMSModuleException (MISSING_SETTING k') None)))
   \<and> (GabiaSMS_init cfg = Inl x
    \<longrightarrow> (\<exists>k' v'. find (\<lambda>(k, v). \<not> setting_truthy v) (get_module_settings cfg) = Some (k', v')
                \<and> x = SMSModuleException (MISSING_SETTING k') None))
   \<and> (set REQUIRED_SETTINGS \<subseteq> fst ` set d \<and> list_all (\<lambda>(k, v). setting_truthy v) d
    \<longrightarrow> GabiaSMS_init (Some d)
          = Inr \<lparr>settings = d, before_send_sms = no_hook, post_sent_sms = no_hook\<rparr>)"
proof (intro conjI impI)
  assume "k \<in> set REQUIRED_SETTINGS
      \<and> (case map_of (case cfg of None \<Rightarrow> [] | Some d \<Rightarrow> d) k of
            None \<Rightarrow> True | Some v \<Rightarrow> \<not> setting_truthy v)"
  then obtain v where "(k, v) \<in> set (get_module_settings cfg)" "\<not> setting_truthy v"
    using required_falsy_entry by blast
  then have "find (\<lambda>(k, v). \<not> setting_truthy v) (get_module_settings cfg) \<noteq> None"
    by (auto simp: find_None_iff)
  then show "\<exists>k' v'. find (\<lambda>(k, v). \<not> setting_truthy v) (get_module_settings cfg) = Some (k', v')
                \<and> GabiaSMS_init cfg = Inl (SMSModuleException (MISSING_SETTING k') None)"
    by (auto simp: init_find)
next
  assume "GabiaSMS_init cfg = Inl x"
  then show "\<exists>k' v'. find (\<lambda>(k, v). \<not> setting_truthy v) (get_module_settings cfg) = Some (k', v')
                \<and> x = SMSModuleException (MISSING_SETTING k') None"
    by (auto simp: init_find split: option.splits)
next
  assume a: "set REQUIRED_SETTINGS \<subseteq> fst ` set d \<and> list_all (\<lambda>(k, v). setting_truthy v) d"
  then have "find (\<lambda>(k, v). \<not> setting_truthy v) d = None"
    by (auto simp: find_None_iff list_all_iff)
  with a show "GabiaSMS_init (Some d)
          = Inr \<lparr>settings = d, before_send_sms = no_hook, post_sent_sms = no_hook\<rparr>"
    by (simp add: init_find get_module_settings_complete)
qed

text \<open>A missing key, an empty key, and the settings of the scenarios.\<close>

theorem init_fails_on_first_falsy_setting_witness:
  "GabiaSMS_init (Some [(''API_ID'', Some ''id1''), (''SENDER'', Some ''0100000000'')])
     = Inl (SMSModuleException ''GABIA_SMS_SETTINGS API_KEY is required'' None)
   \<and> GabiaSMS_init (Some [(''API_ID'', Some ''id1''), (''API_KEY'', Some []),
        (''SENDER'', Some ''0100000000'')])
     = Inl (SMSModuleException ''GABIA_SMS_SETTINGS API_KEY is required'' None)
   \<and> GabiaSMS_init (Some fake_settings) = Inr fake_client"
proof -
  let ?missing = "Some [(''API_ID'', Some ''id1''), (''SENDER'', Some ''0100000000'')]"
  let ?empty = "Some [(''API_ID'', Some ''id1''), (''API_KEY'', Some []),
        (''SENDER'', Some ''0100000000'')]"
  have req: "''API_KEY'' \<in> set REQUIRED_SETTINGS"
    by (simp add: REQUIRED_SETTINGS_def)
  have m1: "get_module_settings ?missing
      = [(''API_ID'', Some ''id1''), (''SENDER'', Some ''0100000000''), (''API_KEY'', None)]"
    by (simp add: get_module_settings_def REQUIRED_SETTINGS_def setdefault_def)
  have m2: "get_module_settings ?empty
      = [(''API_ID'', Some ''id1''), (''API_KEY'', Some []), (''SENDER'', Some ''0100000000'')]"
    by (simp add: get_module_settings_def REQUIRED_SETTINGS_def setdefault_def)
  have "\<exists>k' v'. find (\<lambda>(k, v). \<not> setting_truthy v) (get_module_settings ?missing) = Some (k', v')
          \<and> GabiaSMS_init ?missing = Inl (SMSModuleException (MISSING_SETTING k') None)"
    using init_fails_on_first_falsy_setting [of "''API_KEY''" ?missing] req by simp
  then have r1: "GabiaSMS_init ?missing
      = Inl (SMSModuleException ''GABIA_SMS_SETTINGS API_KEY is required'' None)"
    unfolding m1 by (auto simp: MISSING_SETTING_def)
  have "\<exists>k' v'. find (\<lambda>(k, v). \<not> setting_truthy v) (get_module_settings ?empty) = Some (k', v')
          \<and> GabiaSMS_init ?empty = Inl (SMSModuleException (MISSING_SETTING k') None)"
    using init_fails_on_first_falsy_setting [of "''API_KEY''" ?empty] req by simp
  then have r2: "GabiaSMS_init ?empty
      = Inl (SMSModuleException ''GABIA_SMS_SETTINGS API_KEY is required'' None)"
    unfolding m2 by (auto simp: MISSING_SETTING_def)
  have "set REQUIRED_SETTINGS \<subseteq> fst ` set fake_settings
      \<and> list_all (\<lambda>(k, v). setting_truthy v) fake_settings"
    by (simp add: REQUIRED_SETTINGS_def fake_settings_def)
  with init_fails_on_first_falsy_setting [of _ _ _ fake_settings]
  have r3: "GabiaSMS_init (Some fake_settings) = Inr fake_client"
    unfolding fake_client_def by blast
  from r1 r2 r3 show ?thesis by blast
qed

text \<open>C6 as stated fails where all three keys are present and non-empty and a
  fourth entry is empty: construction fails, and the error names the fourth.\<close>

theorem init_rejects_falsy_extra_setting:
  "map_of [(''API_ID'', Some ''id1''), (''API_KEY'', Some ''key1''),
           (''SENDER'', Some ''0100000000''), (''EXTRA'', Some [])] ''API_ID'' = Some (Some ''id1'')
   \<and> map_of [(''API_ID'', Some ''id1''), (''API_KEY'', Some ''key1''),
           (''SENDER'', Some ''0100000000''), (''EXTRA'', Some [])] ''API_KEY'' = Some (Some ''key1'')
   \<and> map_of [(''API_ID'', Some ''id1''), (''API_KEY'', Some ''key1''),
           (''SENDER'', Some ''0100000000''), (''EXTRA'', Some [])] ''SENDER''
        = Some (Some ''0100000000'')
   \<and> GabiaSMS_init (Some [(''API_ID'', Some ''id1''), (''API_KEY'', Some ''key1''),
           (''SENDER'', Some ''0100000000''), (''EXTRA'', Some [])])
        = Inl (SMSModuleException ''GABIA_SMS_SETTINGS EXTRA is required'' None)"
  by (simp add: GabiaSMS_init_def get_module_settings_def REQUIRED_SETTINGS_def setdefault_def
      MISSING_SETTING_def)

section \<open>Validation of the receivers\<close>

lemma multi_validation_fails:
  "validate_required_multi_params message receivers
     = Inl (SMSModuleException ''Please check required parameters!'' None)
   \<or> validate_required_multi_params message receivers
     = Inl (SMSModuleException ''Please check parameters type!'' None)"
  by (cases receivers) (auto simp: validate_required_multi_params_def)

lemma single_validation_errors:
  assumes "validate_required_params message receiver = Inl y"
  shows "y \<in> (\<lambda>m. SMSModuleException m None) ` {''Please check required parameters!'',
           ''Please check parameters type!'', ''Please check phone number!''}"
  using assms
  by (cases receiver) (auto simp: validate_required_params_def split: if_splits)

lemma multi_send_never_succeeds:
  assumes "py_in sms_type MULTI_SMS_TYPES"
  shows "\<exists>x. send self e message receiver title sms_type scheduled_time tr = (Inl x, tr)"
proof -
  from assms have known: "py_in sms_type KNOWN_SMS_TYPES" and multi: "\<not> py_in sms_type SINGLE_SMS_TYPES"
    by (cases sms_type; auto simp: MULTI_SMS_TYPES_def KNOWN_SMS_TYPES_def SINGLE_SMS_TYPES_def)+
  have "\<exists>x. checked_receiver message receiver sms_type = Inl x"
    using multi multi_validation_fails
    by (auto simp: checked_receiver_def split: sum.splits) (metis sum.distinct(1))+
  then show ?thesis using known
    by (auto simp: send_def get_sms_param_def)
qed

lemma single_send_rejects_unmatched_receiver:
  assumes "py_in sms_type SINGLE_SMS_TYPES" and "\<not> re_search PHONE_NUMBER_REGEX r"
  shows "\<exists>m. send self e message (PyStr r) title sms_type scheduled_time tr
           = (Inl (SMSModuleException m None), tr)"
proof -
  from assms(1) have known: "py_in sms_type KNOWN_SMS_TYPES"
    by (cases sms_type) (auto simp: KNOWN_SMS_TYPES_def SINGLE_SMS_TYPES_def)
  from assms(2) have "\<exists>m. validate_required_params message (PyStr r) = Inl (SMSModuleException m None)"
    by (simp add: validate_required_params_def)
  with assms(1) have "\<exists>m. checked_receiver message (PyStr r) sms_type = Inl (SMSModuleException m None)"
    by (auto simp: checked_receiver_def)
  then show ?thesis using known
    by (auto simp: send_def get_sms_param_def)
qed

text \<open>
  C1, on the code. \<^verbatim>\<open>send("hi", ["01012345678", "01012345678"], sms_type="multi_sms")\<close>:
  the coercion to a set does collapse the duplicate, but the type check of
  \<^verbatim>\<open>__validate_required_multi_params\<close> rejects every value that is not at once a
  list and a set, so the send raises \<open>Please check parameters type!\<close> for every
  client and every collaborator, with no event; no request is built.
\<close>

theorem multi_send_rejects_list_of_receivers:
  "py_set (PyList [PyStr ''01012345678'', PyStr ''01012345678''])
     = Inr (PySet [PyStr ''01012345678''])
   \<and> send self e (PyStr ''hi'') (PyList [PyStr ''01012345678'', PyStr ''01012345678''])
         ''SEND'' (PyStr ''multi_sms'') ''0'' tr
     = (Inl (SMSModuleException ''Please check parameters type!'' None), tr)"
  by (simp add: send_def KNOWN_SMS_TYPES_def get_sms_param_def checked_receiver_def
      SINGLE_SMS_TYPES_def validate_required_multi_params_def)

text \<open>
  C2, on the code. The receiver \<open>01|1234567\<close> does not have the phone-number shape
  of the specification, nor does any part of it; the pattern of the code has the
  bar in its character class and finds itself in the string, so the single send
  goes through: the gateway is called and the key is returned.
\<close>

theorem single_send_accepts_pipe_in_receiver:
  "\<not> re_search spec_phone_shape ''01|1234567''
   \<and> send fake_client (fake_env (\<lambda>request. Inr ''0000'')) (PyStr ''hi'') (PyStr ''01|1234567'')
         ''SEND'' (PyStr ''sms'') ''0'' []
     = (Inr (PyInt 1700000000),
        [ClockRead, BeforeSendSms (fake_param ''hi'' ''01|1234567''), NonceDrawn,
         ProxyCall ''single'', PostSentSms (fake_param ''hi'' ''01|1234567'')])"
  by (simp add: spec_pipe fake_send_answered phone_pipe)

section \<open>The kinds of error\<close>

text \<open>
  C3, as the code has it. Every error the module raises itself is an
  \<open>SMSModuleException\<close>; the kind is in the message alone, and the message does
  determine it: a failure of the constructor reads as a configuration error, a
  failure of either validator or of the type check of \<^verbatim>\<open>send\<close> as a validation
  error, and what the \<^verbatim>\<open>except\<close> clause of either operation raises for a fault
  of the remote call as a gateway error.
\<close>

theorem error_kinds_told_apart_by_message:
  "(GabiaSMS_init cfg = Inl x
      \<longrightarrow> exc_class x = ''SMSModuleException'' \<and> error_kind x = Some ConfigurationError)
   \<and> (validate_required_params message receiver = Inl y
      \<longrightarrow> exc_class y = ''SMSModuleException'' \<and> error_kind y = Some ValidationError)
   \<and> (validate_required_multi_params message receivers = Inl z
      \<longrightarrow> exc_class z = ''SMSModuleException'' \<and> error_kind z = Some ValidationError)
   \<and> (\<not> py_in sms_type KNOWN_SMS_TYPES
        \<and> fst (send self e message receiver title sms_type scheduled_time tr) = Inl u
      \<longrightarrow> exc_class u = ''SMSModuleException'' \<and> error_kind u = Some ValidationError)
   \<and> (send_sms_body self e param tr = (Inl (XmlrpcError f), tr')
        \<and> fst (send_sms self e param tr) = Inl w
      \<longrightarrow> exc_class w = ''SMSModuleException'' \<and> error_kind w = Some GatewayError)
   \<and> (get_send_result_body self e key tr = (Inl (XmlrpcError f'), tr'')
        \<and> fst (get_send_result self e key tr) = Inl w'
      \<longrightarrow> exc_class w' = ''SMSModuleException'' \<and> error_kind w' = Some GatewayError)"
proof (intro conjI impI)
  assume "GabiaSMS_init cfg = Inl x"
  then obtain k where "x = SMSModuleException (MISSING_SETTING k) None"
    by (auto simp: GabiaSMS_init_def Let_def validate_settings_find split: sum.splits option.splits)
  then show "exc_class x = ''SMSModuleException''" "error_kind x = Some ConfigurationError"
    by (simp_all add: error_kind_def MISSING_SETTING_def BAD_REQUEST_def)
next
  assume "validate_required_params message receiver = Inl y"
  from single_validation_errors [OF this]
  show "exc_class y = ''SMSModuleException''" "error_kind y = Some ValidationError"
    by (auto simp: error_kind_def BAD_REQUEST_def)
next
  assume "validate_required_multi_params message receivers = Inl z"
  with multi_validation_fails [of message receivers]
  show "exc_class z = ''SMSModuleException''" "error_kind z = Some ValidationError"
    by (auto simp: error_kind_def BAD_REQUEST_def)
next
  assume "\<not> py_in sms_type KNOWN_SMS_TYPES
        \<and> fst (send self e message receiver title sms_type scheduled_time tr) = Inl u"
  then show "exc_class u = ''SMSModuleException''" "error_kind u = Some ValidationError"
    by (auto simp: send_def error_kind_def BAD_REQUEST_def)
next
  assume "send_sms_body self e param tr = (Inl (XmlrpcError f), tr')
        \<and> fst (send_sms self e param tr) = Inl w"
  then show "exc_class w = ''SMSModuleException''" "error_kind w = Some GatewayError"
    by (auto simp: send_sms_def error_kind_def)
next
  assume "get_send_result_body self e key tr = (Inl (XmlrpcError f'), tr'')
        \<and> fst (get_send_result self e key tr) = Inl w'"
  then show "exc_class w' = ''SMSModuleException''" "error_kind w' = Some GatewayError"
    by (auto simp: get_send_result_def error_kind_def)
qed

text \<open>A constructor without settings, a receiver that is no phone number, and a
  faulting gateway.\<close>

theorem error_kinds_told_apart_by_message_witness:
  "GabiaSMS_init None = Inl (SMSModuleException ''GABIA_SMS_SETTINGS API_ID is required'' None)
   \<and> error_kind (SMSModuleException ''GABIA_SMS_SETTINGS API_ID is required'' None)
       = Some ConfigurationError
   \<and> validate_required_params (PyStr ''hello'') (PyStr ''123'')
       = Inl (SMSModuleException ''Please check phone number!'' None)
   \<and> error_kind (SMSModuleException ''Please check phone number!'' None) = Some ValidationError
   \<and> fst (get_send_result fake_client (fake_env (\<lambda>request. Inl (XmlrpcError ''fault'')))
             (PyStr ''123'') [])
       = Inl (SMSModuleException ''Bad request. Please check api docs'' (Some (XmlrpcError ''fault'')))
   \<and> error_kind (SMSModuleException ''Bad request. Please check api docs'' (Some (XmlrpcError ''fault''))) = Some GatewayError"
proof -
  let ?e = "fake_env (\<lambda>request. Inl (XmlrpcError ''fault''))"
  have a: "GabiaSMS_init None = Inl (SMSModuleException ''GABIA_SMS_SETTINGS API_ID is required'' None)"
    by (simp add: GabiaSMS_init_def get_module_settings_def REQUIRED_SETTINGS_def setdefault_def
        MISSING_SETTING_def)
  have b: "validate_required_params (PyStr ''hello'') (PyStr ''123'')
       = Inl (SMSModuleException ''Please check phone number!'' None)"
    by (simp add: validate_required_params_def phone_short)
  have body: "get_send_result_body fake_client ?e (PyStr ''123'') []
       = (Inl (XmlrpcError ''fault''), [NonceDrawn, ProxyCall ''result''])"
    by (simp add: get_send_result_body_def fake_getitem token_value Let_def)
       (simp add: fake_env_def result_request_def)
  have c: "fst (get_send_result fake_client ?e (PyStr ''123'') [])
       = Inl (SMSModuleException ''Bad request. Please check api docs'' (Some (XmlrpcError ''fault'')))"
    by (simp add: get_send_result_def body BAD_REQUEST_def)
  note t = error_kinds_told_apart_by_message
    [where cfg = None and x = "SMSModuleException ''GABIA_SMS_SETTINGS API_ID is required'' None"
       and message = "PyStr ''hello''" and receiver = "PyStr ''123''"
       and y = "SMSModuleException ''Please check phone number!'' None"
       and self = fake_client and e = ?e and key = "PyStr ''123''" and tr = "[]"
       and f' = "''fault''" and tr'' = "[NonceDrawn, ProxyCall ''result'']"
       and w' = "SMSModuleException ''Bad request. Please check api docs'' (Some (XmlrpcError ''fault''))"]
  from t a have "error_kind (SMSModuleException ''GABIA_SMS_SETTINGS API_ID is required'' None)
       = Some ConfigurationError" by blast
  moreover from t b have "error_kind (SMSModuleException ''Please check phone number!'' None)
       = Some ValidationError" by blast
  moreover from t body c have "error_kind (SMSModuleException ''Bad request. Please check api docs'' (Some (XmlrpcError ''fault'')))
       = Some GatewayError" by blast
  ultimately show ?thesis using a b c by blast
qed

text \<open>C3 as stated promises three types; a failed construction, a failed
  validation and a faulting gateway raise exceptions of one and the same class.\<close>

theorem error_kinds_share_one_class:
  "GabiaSMS_init None = Inl (SMSModuleException ''GABIA_SMS_SETTINGS API_ID is required'' None)
   \<and> fst (send fake_client (fake_env (\<lambda>request. Inr ''0000'')) (PyStr ''hello'') (PyStr ''123'')
             ''SEND'' (PyStr ''sms'') ''0'' [])
       = Inl (SMSModuleException ''Please check phone number!'' None)
   \<and> fst (get_send_result fake_client (fake_env (\<lambda>request. Inl (XmlrpcError ''fault'')))
             (PyStr ''123'') [])
       = Inl (SMSModuleException ''Bad request. Please check api docs'' (Some (XmlrpcError ''fault'')))
   \<and> exc_class (SMSModuleException ''GABIA_SMS_SETTINGS API_ID is required'' None)
       = exc_class (SMSModuleException ''Please check phone number!'' None)
   \<and> exc_class (SMSModuleException ''Please check phone number!'' None)
       = exc_class (SMSModuleException ''Bad request. Please check api docs'' (Some (XmlrpcError ''fault'')))"
proof -
  have a: "GabiaSMS_init None = Inl (SMSModuleException ''GABIA_SMS_SETTINGS API_ID is required'' None)"
    by (simp add: GabiaSMS_init_def get_module_settings_def REQUIRED_SETTINGS_def setdefault_def
        MISSING_SETTING_def)
  have b: "fst (send fake_client (fake_env (\<lambda>request. Inr ''0000'')) (PyStr ''hello'') (PyStr ''123'')
             ''SEND'' (PyStr ''sms'') ''0'' [])
       = Inl (SMSModuleException ''Please check phone number!'' None)"
    by (simp add: send_def KNOWN_SMS_TYPES_def get_sms_param_def checked_receiver_def
        SINGLE_SMS_TYPES_def validate_required_params_def phone_short)
  have c: "fst (get_send_result fake_client (fake_env (\<lambda>request. Inl (XmlrpcError ''fault'')))
             (PyStr ''123'') [])
       = Inl (SMSModuleException ''Bad request. Please check api docs'' (Some (XmlrpcError ''fault'')))"
    by (simp add: get_send_result_def get_send_result_body_def fake_getitem token_value Let_def)
       (simp add: fake_env_def BAD_REQUEST_def)
  from a b c show ?thesis by simp
qed

end
